theory Spec2Isabelle
  imports Main "HOL-Library.Word"
begin

unbundle bit_operations_syntax

section \<open>QDataStream: the bytes of the command channel\<close>

text \<open>
  Every message of the main channel is written through a \<^verbatim>\<open>QDataStream\<close> on a
  \<^verbatim>\<open>QByteArray\<close>. The stream is used with its default byte order, which is big-endian:
  a \<^verbatim>\<open>qint32\<close> is four bytes and a \<^verbatim>\<open>qint64\<close> eight, most significant byte first.
\<close>

type_synonym byte = "8 word"
type_synonym qint32 = "32 word"
type_synonym qint64 = "64 word"

definition put_qint32 :: "qint32 \<Rightarrow> byte list" where
  "put_qint32 w = [ucast (drop_bit 24 w), ucast (drop_bit 16 w), ucast (drop_bit 8 w), ucast w]"

definition put_qint64 :: "qint64 \<Rightarrow> byte list" where
  "put_qint64 w =
     [ucast (drop_bit 56 w), ucast (drop_bit 48 w), ucast (drop_bit 40 w), ucast (drop_bit 32 w),
      ucast (drop_bit 24 w), ucast (drop_bit 16 w), ucast (drop_bit 8 w), ucast w]"

text \<open>
  Reading: \<^verbatim>\<open>stream >> i\<close> yields the value and leaves the stream behind it. When fewer
  than four bytes are left, the read consumes what is there and the value is 0.
\<close>

fun get_qint32 :: "byte list \<Rightarrow> qint32 \<times> byte list" where
  "get_qint32 (b3 # b2 # b1 # b0 # rest) =
     (push_bit 24 (ucast b3) OR push_bit 16 (ucast b2) OR push_bit 8 (ucast b1) OR ucast b0, rest)"
| "get_qint32 _ = (0, [])"

text \<open>\<^verbatim>\<open>stream >> b\<close> for a \<^verbatim>\<open>bool\<close> reads one byte and compares it with 0.\<close>

fun get_bool :: "byte list \<Rightarrow> bool \<times> byte list" where
  "get_bool (b # rest) = (b \<noteq> 0, rest)"
| "get_bool [] = (False, [])"

text \<open>
  \<^verbatim>\<open>stream >> data\<close> for a \<^verbatim>\<open>QByteArray\<close>: a 32-bit length, then that many bytes.
  The length \<^verbatim>\<open>0xffffffff\<close> stands for the null array. When the stream holds fewer
  bytes than the length says, the array is cleared and the stream is used up.
\<close>

definition get_QByteArray :: "byte list \<Rightarrow> byte list \<times> byte list" where
  "get_QByteArray stream =
     (let (len, rest) = get_qint32 stream
      in if len = 0xffffffff then ([], rest)
         else if unat len \<le> length rest then (take (unat len) rest, drop (unat len) rest)
         else ([], []))"

section \<open>Mission control: \<^verbatim>\<open>MainController\<close>\<close>

subsection \<open>Types of the collaborators\<close>

datatype SharedMessageType =
    SharedMessage_RoverStatusUpdate
  | SharedMessage_RoverMediaServerError
  | SharedMessage_RoverGpsUpdate
  | SharedMessage_RoverDriveOverrideStart
  | SharedMessage_RoverDriveOverrideEnd
  | SharedMessage_SensorUpdate
  | SharedMessage_StartDataRecording
  | SharedMessage_StopDataRecording
  | SharedMessage_StopAllCameraStreams
  | SharedMessage_RequestActivateAudioStream
  | SharedMessage_RequestDeactivateAudioStream

datatype RecordingState = RecordingState_Idle | RecordingState_Waiting | RecordingState_Recording

datatype NotificationType = NotificationType_Error | NotificationType_Warning | NotificationType_Info

datatype window = ControlWindow | CommentsWindow | MainWindow

text \<open>
  The constants of \<^verbatim>\<open>core/constants.h\<close> are not part of the sources at hand: the numeric
  value of each message tag and the media identifier of the audio stream are parameters.
\<close>

record constants =
  tagValue :: "SharedMessageType \<Rightarrow> qint32"
  MEDIAID_AUDIO :: qint32

text \<open>
  \<^verbatim>\<open>AudioFormat\<close> is declared elsewhere. Of a format the controller uses only whether it is
  useable and the bytes that \<^verbatim>\<open>stream << format.serialize()\<close> appends to the stream.
\<close>

record AudioFormat =
  isUseable :: bool
  serialized :: "byte list"

text \<open>
  What the controller does to its collaborators, in the order in which it does it:
  messages handed to the main channel, calls on the three windows, calls on the
  recorder and on the data series.
\<close>

datatype effect =
    SendMessage "byte list"
  | SetRecordingState window RecordingState
  | Notify NotificationType string string
  | SetMbedStatus string
  | StartLog qint64 bool
  | StopLog
  | UpdateGpsLocation "byte list"
  | AddLocation "byte list"
  | NewData "byte list"
  | StopVideo

record controller =
  recordStartTime :: qint64
  isRecording :: bool
  controlWindowState :: RecordingState
  commentsWindowState :: RecordingState
  mainWindowState :: RecordingState
  clock :: nat
  watchdogs :: "nat list"
  trace :: "effect list"

subsection \<open>Collaborator calls\<close>

definition emit :: "effect \<Rightarrow> controller \<Rightarrow> controller" where
  "emit e s = s\<lparr>trace := trace s @ [e]\<rparr>"

definition sendMessage :: "byte list \<Rightarrow> controller \<Rightarrow> controller" where
  "sendMessage m s = emit (SendMessage m) s"

definition notify :: "NotificationType \<Rightarrow> string \<Rightarrow> string \<Rightarrow> controller \<Rightarrow> controller" where
  "notify ty title text s = emit (Notify ty title text) s"

definition setMbedStatus :: "string \<Rightarrow> controller \<Rightarrow> controller" where
  "setMbedStatus st s = emit (SetMbedStatus st) s"

fun setRecordingState :: "window \<Rightarrow> RecordingState \<Rightarrow> controller \<Rightarrow> controller" where
  "setRecordingState ControlWindow r s =
     emit (SetRecordingState ControlWindow r) (s\<lparr>controlWindowState := r\<rparr>)"
| "setRecordingState CommentsWindow r s =
     emit (SetRecordingState CommentsWindow r) (s\<lparr>commentsWindowState := r\<rparr>)"
| "setRecordingState MainWindow r s =
     emit (SetRecordingState MainWindow r) (s\<lparr>mainWindowState := r\<rparr>)"

text \<open>
  Modelled from the spec: the recorder (\<^verbatim>\<open>CsvRecorder\<close>, with \<^verbatim>\<open>startLog\<close>,
  \<^verbatim>\<open>stopLog\<close> and \<^verbatim>\<open>isRecording\<close>) is not among the sources. The spec speaks of a local
  recorder that can or cannot be started: whether it can is the argument \<open>ok\<close>, which is
  also what \<^verbatim>\<open>startLog\<close> returns. A recorder that has started is recording until
  \<^verbatim>\<open>stopLog\<close>; a failed start leaves the flag as it was (the one caller stops the recorder
  right after a failed start, so nothing below depends on this choice).
\<close>

definition startLog :: "qint64 \<Rightarrow> bool \<Rightarrow> controller \<Rightarrow> bool \<times> controller" where
  "startLog t ok s =
     (ok, emit (StartLog t ok) (s\<lparr>isRecording := (if ok then True else isRecording s)\<rparr>))"

definition stopLog :: "controller \<Rightarrow> controller" where
  "stopLog s = emit StopLog (s\<lparr>isRecording := False\<rparr>)"

text \<open>
  \<^verbatim>\<open>QTimer::singleShot(ms, this, callback)\<close>: the callback runs once, from the event loop,
  when \<open>ms\<close> milliseconds have passed. The controller arms one kind of timer after start-up,
  the recording watchdog, so a pending timer is its deadline on the clock. Nothing in the
  controller removes a pending timer.
\<close>

definition singleShot :: "nat \<Rightarrow> controller \<Rightarrow> controller" where
  "singleShot ms s = s\<lparr>watchdogs := watchdogs s @ [clock s + ms]\<rparr>"

subsection \<open>Sending commands to the rover\<close>

definition sendStartRecordCommandToRover :: "constants \<Rightarrow> controller \<Rightarrow> controller" where
  "sendStartRecordCommandToRover K s =
     sendMessage (put_qint32 (tagValue K SharedMessage_StartDataRecording)
                  @ put_qint64 (recordStartTime s)) s"

definition sendStopRecordCommandToRover :: "constants \<Rightarrow> controller \<Rightarrow> controller" where
  "sendStopRecordCommandToRover K s =
     sendMessage (put_qint32 (tagValue K SharedMessage_StopDataRecording)) s"

definition stopAllRoverCameras :: "constants \<Rightarrow> controller \<Rightarrow> controller" where
  "stopAllRoverCameras K s =
     sendMessage (put_qint32 (tagValue K SharedMessage_StopAllCameraStreams)) (emit StopVideo s)"

definition stopAudio :: "constants \<Rightarrow> controller \<Rightarrow> controller" where
  "stopAudio K s =
     sendMessage (put_qint32 (tagValue K SharedMessage_RequestDeactivateAudioStream)) s"

definition startAudioStream :: "constants \<Rightarrow> AudioFormat \<Rightarrow> controller \<Rightarrow> controller" where
  "startAudioStream K format s =
     (if isUseable format
      then sendMessage (put_qint32 (tagValue K SharedMessage_RequestActivateAudioStream)
                        @ serialized format) s
      else s)"

subsection \<open>The recording handshake\<close>

definition stopDataRecording :: "constants \<Rightarrow> controller \<Rightarrow> controller" where
  "stopDataRecording K s =
     (let s1 = stopLog s;
          s2 = setRecordingState ControlWindow RecordingState_Idle s1;
          s3 = setRecordingState CommentsWindow RecordingState_Idle s2;
          s4 = setRecordingState MainWindow RecordingState_Idle s3
      in sendMessage (put_qint32 (tagValue K SharedMessage_StopDataRecording)) s4)"

text \<open>The body of the watchdog's callback.\<close>

definition watchdog :: "constants \<Rightarrow> controller \<Rightarrow> controller" where
  "watchdog K s =
     (if \<not> isRecording s
      then notify NotificationType_Error ''Cannot Record Data''
             ''The rover has not responded to the request to start data recording''
             (stopDataRecording K s)
      else s)"

text \<open>
  \<open>now\<close> is the reading of \<^verbatim>\<open>QDateTime::currentDateTime().toMSecsSinceEpoch()\<close>.
\<close>

definition startDataRecording :: "constants \<Rightarrow> qint64 \<Rightarrow> controller \<Rightarrow> controller" where
  "startDataRecording K now s =
     (let s1 = s\<lparr>recordStartTime := now\<rparr>;
          s2 = sendStartRecordCommandToRover K s1;
          s3 = setRecordingState ControlWindow RecordingState_Waiting s2;
          s4 = setRecordingState CommentsWindow RecordingState_Waiting s3;
          s5 = setRecordingState MainWindow RecordingState_Waiting s4
      in singleShot 5000 s5)"

definition toggleDataRecording :: "constants \<Rightarrow> qint64 \<Rightarrow> controller \<Rightarrow> controller" where
  "toggleDataRecording K now s =
     (if isRecording s then stopDataRecording K s else startDataRecording K now s)"

subsection \<open>The event loop's timers\<close>

text \<open>
  The event loop runs the callback of every pending timer whose deadline has been
  reached, in the order in which the timers were armed, and forgets the timer: it is
  one-shot. The callbacks arm no timer.
\<close>

fun runCallbacks :: "constants \<Rightarrow> nat list \<Rightarrow> controller \<Rightarrow> controller" where
  "runCallbacks K [] s = s"
| "runCallbacks K (d # ds) s = runCallbacks K ds (watchdog K s)"

definition processTimers :: "constants \<Rightarrow> controller \<Rightarrow> controller" where
  "processTimers K s =
     runCallbacks K (filter (\<lambda>d. d \<le> clock s) (watchdogs s))
       (s\<lparr>watchdogs := filter (\<lambda>d. \<not> d \<le> clock s) (watchdogs s)\<rparr>)"

text \<open>\<open>ms\<close> milliseconds pass without any other event.\<close>

definition elapse :: "constants \<Rightarrow> nat \<Rightarrow> controller \<Rightarrow> controller" where
  "elapse K ms s = processTimers K (s\<lparr>clock := clock s + ms\<rparr>)"

subsection \<open>Messages from the rover\<close>

text \<open>
  The \<^verbatim>\<open>switch\<close> over the tag read from the message: the case labels in the order of the
  source. A tag that is none of them takes the \<^verbatim>\<open>default\<close> branch.
\<close>

definition caseLabels :: "SharedMessageType list" where
  "caseLabels =
     [SharedMessage_RoverStatusUpdate, SharedMessage_RoverMediaServerError,
      SharedMessage_RoverGpsUpdate, SharedMessage_RoverDriveOverrideStart,
      SharedMessage_RoverDriveOverrideEnd, SharedMessage_SensorUpdate,
      SharedMessage_StartDataRecording]"

definition switchCase :: "constants \<Rightarrow> qint32 \<Rightarrow> SharedMessageType option" where
  "switchCase K w = find (\<lambda>t. tagValue K t = w) caseLabels"

text \<open>
  The branch for a start-recording message. \<open>ok\<close> says whether the recorder can be
  started at this moment.
\<close>

definition onStartDataRecording :: "constants \<Rightarrow> bool \<Rightarrow> controller \<Rightarrow> controller" where
  "onStartDataRecording K ok s =
     (let (started, s1) = startLog (recordStartTime s) ok s;
          s2 = (if \<not> started
                then sendStopRecordCommandToRover K
                       (notify NotificationType_Error ''Cannot Record Data''
                          ''An error occurred attempting to start data logging.''
                          (stopDataRecording K s1))
                else s1);
          s3 = setRecordingState ControlWindow RecordingState_Recording s2
      in setRecordingState CommentsWindow RecordingState_Recording s3)"

text \<open>
  The payload of a GPS message is decoded by a class that is declared elsewhere
  (\<^verbatim>\<open>NmeaMessage\<close>): the collaborators are given the stream behind the tag. The
  payload of a sensor message is a \<^verbatim>\<open>QByteArray\<close>, whose bytes go to the parser. The
  error text of a media-server error is only logged.
\<close>

definition onMainChannelMessageReceived ::
  "constants \<Rightarrow> byte list \<Rightarrow> bool \<Rightarrow> controller \<Rightarrow> controller" where
  "onMainChannelMessageReceived K message ok s =
     (let (messageType, stream) = get_qint32 message
      in case switchCase K messageType of
           Some SharedMessage_RoverStatusUpdate \<Rightarrow>
             (let (mbedStatus, _) = get_bool stream
              in if \<not> mbedStatus
                 then setMbedStatus ''Error''
                        (notify NotificationType_Error ''Mbed Error''
                           ''The rover has lost connection to the mbed. Driving and data collection will no longer work.''
                           s)
                 else setMbedStatus ''Normal'' s)
         | Some SharedMessage_RoverMediaServerError \<Rightarrow>
             (let (mediaId, _) = get_qint32 stream
              in if mediaId = MEDIAID_AUDIO K
                 then notify NotificationType_Warning ''Audio Stream Error''
                        ''The rover encountered an error trying to stream audio.'' s
                 else notify NotificationType_Warning ''Video Stream Error''
                        ''The rover encountered an error trying to stream this camera.'' s)
         | Some SharedMessage_RoverGpsUpdate \<Rightarrow>
             emit (AddLocation stream) (emit (UpdateGpsLocation stream) s)
         | Some SharedMessage_RoverDriveOverrideStart \<Rightarrow>
             setMbedStatus ''Manual Override''
               (notify NotificationType_Info ''Network Driving Disabled''
                  ''The rover is being driven by serial override. Network drive commands will not be accepted.''
                  s)
         | Some SharedMessage_RoverDriveOverrideEnd \<Rightarrow>
             setMbedStatus ''Normal''
               (notify NotificationType_Info ''Network Driving Enabled''
                  ''The rover has resumed accepting network drive commands.'' s)
         | Some SharedMessage_SensorUpdate \<Rightarrow>
             (let (data, _) = get_QByteArray stream in emit (NewData data) s)
         | Some SharedMessage_StartDataRecording \<Rightarrow> onStartDataRecording K ok s
         | _ \<Rightarrow> s)"

subsection \<open>Reading the trace\<close>

definition sentMessages :: "effect list \<Rightarrow> byte list list" where
  "sentMessages es = concat (map (\<lambda>e. case e of SendMessage m \<Rightarrow> [m] | _ \<Rightarrow> []) es)"

definition notifications :: "effect list \<Rightarrow> (NotificationType \<times> string \<times> string) list" where
  "notifications es =
     concat (map (\<lambda>e. case e of Notify ty title text \<Rightarrow> [(ty, title, text)] | _ \<Rightarrow> []) es)"

definition statesShown :: "window \<Rightarrow> effect list \<Rightarrow> RecordingState list" where
  "statesShown w es =
     concat (map (\<lambda>e. case e of SetRecordingState w' r \<Rightarrow> (if w' = w then [r] else []) | _ \<Rightarrow> []) es)"

text \<open>The effects of a run from \<open>s\<close> to \<open>s'\<close>: what the trace has gained.\<close>

definition effectsSince :: "controller \<Rightarrow> controller \<Rightarrow> effect list" where
  "effectsSince s s' = drop (length (trace s)) (trace s')"

text \<open>How often a sequence of states steps from \<open>a\<close> to \<open>b\<close>.\<close>

fun transitions :: "RecordingState \<Rightarrow> RecordingState \<Rightarrow> RecordingState list \<Rightarrow> nat" where
  "transitions a b (x # y # xs) =
     (if x = a \<and> y = b then 1 else 0) + transitions a b (y # xs)"
| "transitions a b _ = 0"

definition stopMessage :: "constants \<Rightarrow> byte list" where
  "stopMessage K = put_qint32 (tagValue K SharedMessage_StopDataRecording)"

definition startMessage :: "constants \<Rightarrow> qint64 \<Rightarrow> byte list" where
  "startMessage K t = put_qint32 (tagValue K SharedMessage_StartDataRecording) @ put_qint64 t"

text \<open>
  A \<^verbatim>\<open>switch\<close> compiles only when its case labels have pairwise different values.
\<close>

definition labelsDistinct :: "constants \<Rightarrow> bool" where
  "labelsDistinct K = distinct (map (tagValue K) caseLabels)"

subsection \<open>Example values\<close>

text \<open>
  Values at which the theorems below are instantiated: a numbering of the tags, and a
  controller at rest, which records nothing and has no timer pending.
\<close>

definition exampleConstants :: constants where
  "exampleConstants =
     \<lparr>tagValue = (\<lambda>t. case t of
          SharedMessage_RoverStatusUpdate \<Rightarrow> 1
        | SharedMessage_RoverMediaServerError \<Rightarrow> 2
        | SharedMessage_RoverGpsUpdate \<Rightarrow> 3
        | SharedMessage_RoverDriveOverrideStart \<Rightarrow> 4
        | SharedMessage_RoverDriveOverrideEnd \<Rightarrow> 5
        | SharedMessage_SensorUpdate \<Rightarrow> 6
        | SharedMessage_StartDataRecording \<Rightarrow> 7
        | SharedMessage_StopDataRecording \<Rightarrow> 8
        | SharedMessage_StopAllCameraStreams \<Rightarrow> 9
        | SharedMessage_RequestActivateAudioStream \<Rightarrow> 10
        | SharedMessage_RequestDeactivateAudioStream \<Rightarrow> 11),
      MEDIAID_AUDIO = 100\<rparr>"

definition idleController :: controller where
  "idleController =
     \<lparr>recordStartTime = 0, isRecording = False,
      controlWindowState = RecordingState_Idle,
      commentsWindowState = RecordingState_Idle,
      mainWindowState = RecordingState_Idle,
      clock = 0, watchdogs = [], trace = []\<rparr>"

text \<open>
  A controller that has been through one recording: the operator requested recording
  at time 0, the rover acknowledged at 1000 ms and the recorder started, and the
  operator stopped the recording at 2000 ms. It is at rest again, except that the
  watchdog of the request is still pending.
\<close>

definition stoppedController :: controller where
  "stoppedController =
     toggleDataRecording exampleConstants 3234
       (elapse exampleConstants 1000
          (onMainChannelMessageReceived exampleConstants (startMessage exampleConstants 1234) True
             (elapse exampleConstants 1000
                (toggleDataRecording exampleConstants 1234 idleController))))"

section \<open>The video streamer process: \<^verbatim>\<open>VideoStreamer\<close>\<close>

subsection \<open>Types\<close>

datatype GstState = StateNull | StatePlaying

text \<open>
  The calls on the parent's D-Bus interface. All are made with \<^verbatim>\<open>QDBus::NoBlock\<close>:
  the child does not wait for a reply. The first argument is the child's process id.
\<close>

datatype parentCall =
    onChildReady qint64
  | onChildStreaming qint64
  | onChildError qint64 string
  | onChildLogInfo qint64 string string

text \<open>What the streamer does to the parent and to GStreamer, in order.\<close>

datatype streamerEffect =
    ParentCall parentCall
  | PipelineCreate
  | BusAddSignalWatch
  | BusConnect
  | BusDisconnect
  | PipelineAdd string
  | PipelineSetState GstState
  | PipelineClear

text \<open>
  A pipeline object: the state it was last set to, the bins added to it (each given by
  its description), and whether \<^verbatim>\<open>onBusMessage\<close> is connected to its bus.
\<close>

record gstPipeline =
  gstState :: GstState
  bins :: "string list"
  busConnected :: bool

text \<open>\<open>pipeline\<close> is the smart pointer \<^verbatim>\<open>_pipeline\<close>: \<open>None\<close> when it is null.\<close>

record streamer =
  pid :: qint64
  pipeline :: "gstPipeline option"
  effects :: "streamerEffect list"

text \<open>
  \<^verbatim>\<open>GStreamerUtil\<close> builds the pipeline descriptions; it is declared elsewhere and its
  two functions are parameters. \<^verbatim>\<open>QGst::Bin::fromDescription\<close> is taken to return the
  bin that the description denotes.
\<close>

record GStreamerUtil =
  createRtpV4L2EncodeString :: "string \<Rightarrow> string \<Rightarrow> int \<Rightarrow> string \<Rightarrow> bool \<Rightarrow> string"
  createRtpStereoV4L2EncodeString ::
    "string \<Rightarrow> string \<Rightarrow> string \<Rightarrow> int \<Rightarrow> string \<Rightarrow> bool \<Rightarrow> string"

datatype busMessage = MessageEos | MessageError string | MessageOther

subsection \<open>Operations\<close>

definition LogTag :: string where
  "LogTag = ''VideoStreamer''"

definition perform :: "streamerEffect \<Rightarrow> streamer \<Rightarrow> streamer" where
  "perform e s = s\<lparr>effects := effects s @ [e]\<rparr>"

definition call :: "parentCall \<Rightarrow> streamer \<Rightarrow> streamer" where
  "call c s = perform (ParentCall c) s"

definition stopPrivate :: "bool \<Rightarrow> streamer \<Rightarrow> streamer" where
  "stopPrivate sendReady s =
     (case pipeline s of
        None \<Rightarrow> s
      | Some p \<Rightarrow>
          (let s1 = call (onChildLogInfo (pid s) LogTag ''Freeing pipeline'') s;
               s2 = perform BusDisconnect (s1\<lparr>pipeline := Some (p\<lparr>busConnected := False\<rparr>)\<rparr>);
               s3 = perform (PipelineSetState StateNull)
                      (s2\<lparr>pipeline := Some (p\<lparr>busConnected := False, gstState := StateNull\<rparr>)\<rparr>);
               s4 = perform PipelineClear (s3\<lparr>pipeline := None\<rparr>)
           in if sendReady then call (onChildReady (pid s4)) s4 else s4))"

definition stop :: "streamer \<Rightarrow> streamer" where
  "stop s = stopPrivate True s"

definition createPipeline :: "streamer \<Rightarrow> gstPipeline \<times> streamer" where
  "createPipeline s =
     (\<lparr>gstState = StateNull, bins = [], busConnected = True\<rparr>,
      perform BusConnect (perform BusAddSignalWatch (perform PipelineCreate s)))"

definition stream ::
  "GStreamerUtil \<Rightarrow> string \<Rightarrow> string \<Rightarrow> int \<Rightarrow> string \<Rightarrow> bool \<Rightarrow> streamer \<Rightarrow> streamer" where
  "stream G device address port profile vaapi s =
     (let s1 = stopPrivate False s;
          (p, s2) = createPipeline s1;
          s3 = s2\<lparr>pipeline := Some p\<rparr>;
          binStr = createRtpV4L2EncodeString G device address port profile vaapi;
          s4 = call (onChildLogInfo (pid s3) LogTag (''Starting GStreamer with command '' @ binStr)) s3;
          s5 = perform (PipelineAdd binStr) (s4\<lparr>pipeline := Some (p\<lparr>bins := bins p @ [binStr]\<rparr>)\<rparr>);
          s6 = perform (PipelineSetState StatePlaying)
                 (s5\<lparr>pipeline := Some (p\<lparr>bins := bins p @ [binStr], gstState := StatePlaying\<rparr>)\<rparr>)
      in call (onChildStreaming (pid s6)) s6)"

definition streamStereo ::
  "GStreamerUtil \<Rightarrow> string \<Rightarrow> string \<Rightarrow> string \<Rightarrow> int \<Rightarrow> string \<Rightarrow> bool \<Rightarrow> streamer \<Rightarrow> streamer" where
  "streamStereo G leftDevice rightDevice address port profile vaapi s =
     (let s1 = stopPrivate False s;
          (p, s2) = createPipeline s1;
          s3 = s2\<lparr>pipeline := Some p\<rparr>;
          binStr = createRtpStereoV4L2EncodeString G leftDevice rightDevice address port profile vaapi;
          s4 = call (onChildLogInfo (pid s3) LogTag (''Starting GStreamer with command '' @ binStr)) s3;
          s5 = perform (PipelineAdd binStr) (s4\<lparr>pipeline := Some (p\<lparr>bins := bins p @ [binStr]\<rparr>)\<rparr>);
          s6 = perform (PipelineSetState StatePlaying)
                 (s5\<lparr>pipeline := Some (p\<lparr>bins := bins p @ [binStr], gstState := StatePlaying\<rparr>)\<rparr>)
      in call (onChildStreaming (pid s6)) s6)"

definition onBusMessage :: "busMessage \<Rightarrow> streamer \<Rightarrow> streamer" where
  "onBusMessage message s =
     (case message of
        MessageEos \<Rightarrow>
          stopPrivate True (call (onChildError (pid s) ''Received EOS message from GStreamer'') s)
      | MessageError errorMessage \<Rightarrow>
          stopPrivate True (call (onChildError (pid s) errorMessage) s)
      | MessageOther \<Rightarrow> s)"

subsection \<open>Reading the effects\<close>

definition performedSince :: "streamer \<Rightarrow> streamer \<Rightarrow> streamerEffect list" where
  "performedSince s s' = drop (length (effects s)) (effects s')"

definition parentCalls :: "streamerEffect list \<Rightarrow> parentCall list" where
  "parentCalls es = concat (map (\<lambda>e. case e of ParentCall c \<Rightarrow> [c] | _ \<Rightarrow> []) es)"

definition errorReports :: "streamerEffect list \<Rightarrow> (qint64 \<times> string) list" where
  "errorReports es =
     concat (map (\<lambda>c. case c of onChildError p m \<Rightarrow> [(p, m)] | _ \<Rightarrow> []) (parentCalls es))"

definition streamingReports :: "streamerEffect list \<Rightarrow> qint64 list" where
  "streamingReports es =
     concat (map (\<lambda>c. case c of onChildStreaming p \<Rightarrow> [p] | _ \<Rightarrow> []) (parentCalls es))"

text \<open>The detail message that \<^verbatim>\<open>onBusMessage\<close> reports for a bus message.\<close>

fun detail :: "busMessage \<Rightarrow> string" where
  "detail MessageEos = ''Received EOS message from GStreamer''"
| "detail (MessageError errorMessage) = errorMessage"
| "detail MessageOther = []"

subsection \<open>Example values\<close>

definition exampleUtil :: GStreamerUtil where
  "exampleUtil =
     \<lparr>createRtpV4L2EncodeString = (\<lambda>device address port profile vaapi. ''v4l2src device='' @ device),
      createRtpStereoV4L2EncodeString =
        (\<lambda>leftDevice rightDevice address port profile vaapi.
           ''v4l2src device='' @ leftDevice @ '' v4l2src device='' @ rightDevice)\<rparr>"

definition freshStreamer :: streamer where
  "freshStreamer = \<lparr>pid = 4242, pipeline = None, effects = []\<rparr>"

definition playingStreamer :: streamer where
  "playingStreamer = stream exampleUtil ''/dev/video0'' ''10.0.0.2'' 5556 ''h264'' False freshStreamer"

section \<open>Properties of the recording handshake\<close>

subsection \<open>The stream round trip of a tag\<close>

lemma get_put_qint32: "get_qint32 (put_qint32 w @ rest) = (w, rest)"
proof -
  have "push_bit 24 (ucast (ucast (drop_bit 24 w :: 32 word) :: 8 word)) OR
        push_bit 16 (ucast (ucast (drop_bit 16 w :: 32 word) :: 8 word)) OR
        push_bit 8 (ucast (ucast (drop_bit 8 w :: 32 word) :: 8 word)) OR
        ucast (ucast w :: 8 word) = w"
  proof (rule bit_word_eqI)
    fix n :: nat
    assume n: "n < LENGTH(32)"
    consider "n < 8" | "8 \<le> n" "n < 16" | "16 \<le> n" "n < 24" | "24 \<le> n" "n < 32"
      using n by fastforce
    then show "bit (push_bit 24 (ucast (ucast (drop_bit 24 w :: 32 word) :: 8 word)) OR
        push_bit 16 (ucast (ucast (drop_bit 16 w :: 32 word) :: 8 word)) OR
        push_bit 8 (ucast (ucast (drop_bit 8 w :: 32 word) :: 8 word)) OR
        ucast (ucast w :: 8 word) :: 32 word) n = bit w n"
      by cases (auto simp add: bit_simps)
  qed
  then show ?thesis
    by (simp add: put_qint32_def)
qed

subsection \<open>What each operation does\<close>

lemma effectsSince_append [simp]: "trace s' = trace s @ es \<Longrightarrow> effectsSince s s' = es"
  by (simp add: effectsSince_def)

lemma trace_stopDataRecording:
  "trace (stopDataRecording K s) =
     trace s @ [StopLog,
                SetRecordingState ControlWindow RecordingState_Idle,
                SetRecordingState CommentsWindow RecordingState_Idle,
                SetRecordingState MainWindow RecordingState_Idle,
                SendMessage (stopMessage K)]"
  by (simp add: stopDataRecording_def stopLog_def sendMessage_def emit_def stopMessage_def)

lemma fields_stopDataRecording:
  "isRecording (stopDataRecording K s) = False"
  "controlWindowState (stopDataRecording K s) = RecordingState_Idle"
  "commentsWindowState (stopDataRecording K s) = RecordingState_Idle"
  "mainWindowState (stopDataRecording K s) = RecordingState_Idle"
  "watchdogs (stopDataRecording K s) = watchdogs s"
  "clock (stopDataRecording K s) = clock s"
  "recordStartTime (stopDataRecording K s) = recordStartTime s"
  by (simp_all add: stopDataRecording_def stopLog_def sendMessage_def emit_def)

lemma trace_startDataRecording:
  "trace (startDataRecording K now s) =
     trace s @ [SendMessage (startMessage K now),
                SetRecordingState ControlWindow RecordingState_Waiting,
                SetRecordingState CommentsWindow RecordingState_Waiting,
                SetRecordingState MainWindow RecordingState_Waiting]"
  by (simp add: startDataRecording_def sendStartRecordCommandToRover_def singleShot_def
      sendMessage_def emit_def startMessage_def)

lemma fields_startDataRecording:
  "isRecording (startDataRecording K now s) = isRecording s"
  "controlWindowState (startDataRecording K now s) = RecordingState_Waiting"
  "commentsWindowState (startDataRecording K now s) = RecordingState_Waiting"
  "mainWindowState (startDataRecording K now s) = RecordingState_Waiting"
  "watchdogs (startDataRecording K now s) = watchdogs s @ [clock s + 5000]"
  "clock (startDataRecording K now s) = clock s"
  "recordStartTime (startDataRecording K now s) = now"
  by (simp_all add: startDataRecording_def sendStartRecordCommandToRover_def singleShot_def
      sendMessage_def emit_def)

lemma watchdog_recording: "isRecording s \<Longrightarrow> watchdog K s = s"
  by (simp add: watchdog_def)

lemma runCallbacks_recording: "isRecording s \<Longrightarrow> runCallbacks K ds s = s"
  by (induction ds) (simp_all add: watchdog_recording)

lemma trace_watchdog_idle:
  "\<not> isRecording s \<Longrightarrow>
   trace (watchdog K s) =
     trace s @ [StopLog,
                SetRecordingState ControlWindow RecordingState_Idle,
                SetRecordingState CommentsWindow RecordingState_Idle,
                SetRecordingState MainWindow RecordingState_Idle,
                SendMessage (stopMessage K),
                Notify NotificationType_Error ''Cannot Record Data''
                  ''The rover has not responded to the request to start data recording'']"
  by (simp add: watchdog_def notify_def emit_def trace_stopDataRecording)

lemma fields_watchdog_idle:
  assumes "\<not> isRecording s"
  shows "isRecording (watchdog K s) = False"
  "controlWindowState (watchdog K s) = RecordingState_Idle"
  "commentsWindowState (watchdog K s) = RecordingState_Idle"
  "mainWindowState (watchdog K s) = RecordingState_Idle"
  "watchdogs (watchdog K s) = watchdogs s"
  "clock (watchdog K s) = clock s"
  "recordStartTime (watchdog K s) = recordStartTime s"
  using assms by (simp_all add: watchdog_def notify_def emit_def fields_stopDataRecording)

lemma elapse_none_due:
  "\<forall>d \<in> set (watchdogs s). clock s + ms < d \<Longrightarrow> elapse K ms s = s\<lparr>clock := clock s + ms\<rparr>"
proof -
  assume a: "\<forall>d \<in> set (watchdogs s). clock s + ms < d"
  then have "filter (\<lambda>d. d \<le> clock s + ms) (watchdogs s) = []"
    by (auto simp add: filter_empty_conv)
  moreover from a have "filter (\<lambda>d. \<not> d \<le> clock s + ms) (watchdogs s) = watchdogs s"
    by (auto simp add: filter_id_conv)
  ultimately show ?thesis
    by (simp add: elapse_def processTimers_def)
qed

lemma elapse_recording:
  "isRecording s \<Longrightarrow>
   elapse K ms s = s\<lparr>clock := clock s + ms,
                      watchdogs := filter (\<lambda>d. \<not> d \<le> clock s + ms) (watchdogs s)\<rparr>"
  by (simp add: elapse_def processTimers_def runCallbacks_recording)

lemma elapse_timeout:
  assumes "\<not> isRecording s" and "watchdogs s = [d]" and "d \<le> clock s + ms"
  shows "elapse K ms s = watchdog K (s\<lparr>clock := clock s + ms, watchdogs := []\<rparr>)"
  using assms by (simp add: elapse_def processTimers_def)

lemma switchCase_start:
  "labelsDistinct K \<Longrightarrow>
   switchCase K (tagValue K SharedMessage_StartDataRecording) = Some SharedMessage_StartDataRecording"
  by (auto simp add: labelsDistinct_def switchCase_def caseLabels_def)

lemma onMain_start:
  "labelsDistinct K \<Longrightarrow>
   onMainChannelMessageReceived K (put_qint32 (tagValue K SharedMessage_StartDataRecording) @ payload) ok s =
     onStartDataRecording K ok s"
  by (simp add: onMainChannelMessageReceived_def get_put_qint32 switchCase_start)

lemma trace_onStart_ok:
  "trace (onStartDataRecording K True s) =
     trace s @ [StartLog (recordStartTime s) True,
                SetRecordingState ControlWindow RecordingState_Recording,
                SetRecordingState CommentsWindow RecordingState_Recording]"
  by (simp add: onStartDataRecording_def startLog_def emit_def)

lemma fields_onStart_ok:
  "isRecording (onStartDataRecording K True s) = True"
  "controlWindowState (onStartDataRecording K True s) = RecordingState_Recording"
  "commentsWindowState (onStartDataRecording K True s) = RecordingState_Recording"
  "mainWindowState (onStartDataRecording K True s) = mainWindowState s"
  "watchdogs (onStartDataRecording K True s) = watchdogs s"
  "clock (onStartDataRecording K True s) = clock s"
  "recordStartTime (onStartDataRecording K True s) = recordStartTime s"
  by (simp_all add: onStartDataRecording_def startLog_def emit_def)

lemma trace_onStart_failed:
  "trace (onStartDataRecording K False s) =
     trace s @ [StartLog (recordStartTime s) False,
                StopLog,
                SetRecordingState ControlWindow RecordingState_Idle,
                SetRecordingState CommentsWindow RecordingState_Idle,
                SetRecordingState MainWindow RecordingState_Idle,
                SendMessage (stopMessage K),
                Notify NotificationType_Error ''Cannot Record Data''
                  ''An error occurred attempting to start data logging.'',
                SendMessage (stopMessage K),
                SetRecordingState ControlWindow RecordingState_Recording,
                SetRecordingState CommentsWindow RecordingState_Recording]"
  by (simp add: onStartDataRecording_def startLog_def emit_def notify_def sendMessage_def
      sendStopRecordCommandToRover_def trace_stopDataRecording stopMessage_def)

lemma fields_onStart_failed:
  "isRecording (onStartDataRecording K False s) = False"
  "controlWindowState (onStartDataRecording K False s) = RecordingState_Recording"
  "commentsWindowState (onStartDataRecording K False s) = RecordingState_Recording"
  "mainWindowState (onStartDataRecording K False s) = RecordingState_Idle"
  "watchdogs (onStartDataRecording K False s) = watchdogs s"
  by (simp_all add: onStartDataRecording_def startLog_def emit_def notify_def sendMessage_def
      sendStopRecordCommandToRover_def fields_stopDataRecording)

lemma start_ne_stop: "startMessage K t \<noteq> stopMessage K"
proof
  assume "startMessage K t = stopMessage K"
  then have "length (startMessage K t) = length (stopMessage K)" by simp
  then show False
    by (simp add: startMessage_def stopMessage_def put_qint32_def put_qint64_def)
qed

lemma labelsDistinct_example: "labelsDistinct exampleConstants"
  by (simp add: labelsDistinct_def caseLabels_def exampleConstants_def)

subsection \<open>The handshake with no timer pending\<close>

text \<open>
  From a controller with no watchdog pending, a request that is acknowledged before
  its deadline shows Waiting and then Recording in the control and the comments
  window, sends no stop message and notifies nothing, however much time passes
  afterwards. The handler makes no call on the main window, which keeps showing
  Waiting.
\<close>

lemma handshake_acknowledged:
  fixes K :: constants and now :: qint64 and before after :: nat and payload :: "byte list"
    and s s1 s2 s' :: controller
  defines "s1 \<equiv> elapse K before (startDataRecording K now s)"
  defines "s2 \<equiv> onMainChannelMessageReceived K
                    (put_qint32 (tagValue K SharedMessage_StartDataRecording) @ payload) True s1"
  defines "s' \<equiv> elapse K after s2"
  assumes labels: "labelsDistinct K" and none0: "watchdogs s = []" and early: "before < 5000"
  shows "controlWindowState s1 = RecordingState_Waiting \<and>
         controlWindowState s' = RecordingState_Recording \<and>
         commentsWindowState s' = RecordingState_Recording \<and>
         mainWindowState s' = RecordingState_Waiting \<and>
         isRecording s' \<and>
         effectsSince s s' =
           [SendMessage (startMessage K now),
            SetRecordingState ControlWindow RecordingState_Waiting,
            SetRecordingState CommentsWindow RecordingState_Waiting,
            SetRecordingState MainWindow RecordingState_Waiting,
            StartLog now True,
            SetRecordingState ControlWindow RecordingState_Recording,
            SetRecordingState CommentsWindow RecordingState_Recording] \<and>
         transitions RecordingState_Waiting RecordingState_Recording
           (controlWindowState s # statesShown ControlWindow (effectsSince s s')) = 1 \<and>
         transitions RecordingState_Waiting RecordingState_Recording
           (commentsWindowState s # statesShown CommentsWindow (effectsSince s s')) = 1 \<and>
         count_list (sentMessages (effectsSince s s')) (stopMessage K) = 0 \<and>
         notifications (effectsSince s s') = []"
proof -
  let ?s0 = "startDataRecording K now s"
  have "\<forall>d \<in> set (watchdogs ?s0). clock ?s0 + before < d"
    using none0 early by (simp add: fields_startDataRecording)
  then have s1: "s1 = ?s0\<lparr>clock := clock ?s0 + before\<rparr>"
    unfolding s1_def by (rule elapse_none_due)
  have s2: "s2 = onStartDataRecording K True s1"
    unfolding s2_def using labels by (rule onMain_start)
  have rec: "isRecording s2"
    by (simp add: s2 fields_onStart_ok)
  have s': "s' = s2\<lparr>clock := clock s2 + after,
                      watchdogs := filter (\<lambda>d. \<not> d \<le> clock s2 + after) (watchdogs s2)\<rparr>"
    unfolding s'_def using rec by (rule elapse_recording)
  have tr: "trace s' = trace s @ [SendMessage (startMessage K now),
            SetRecordingState ControlWindow RecordingState_Waiting,
            SetRecordingState CommentsWindow RecordingState_Waiting,
            SetRecordingState MainWindow RecordingState_Waiting,
            StartLog now True,
            SetRecordingState ControlWindow RecordingState_Recording,
            SetRecordingState CommentsWindow RecordingState_Recording]"
    by (simp add: s' s2 trace_onStart_ok s1 trace_startDataRecording fields_startDataRecording)
  have fl: "controlWindowState s1 = RecordingState_Waiting"
    "controlWindowState s' = RecordingState_Recording"
    "commentsWindowState s' = RecordingState_Recording"
    "mainWindowState s' = RecordingState_Waiting"
    "isRecording s'"
    by (simp_all add: s' s2 fields_onStart_ok s1 fields_startDataRecording)
  have es: "effectsSince s s' = [SendMessage (startMessage K now),
            SetRecordingState ControlWindow RecordingState_Waiting,
            SetRecordingState CommentsWindow RecordingState_Waiting,
            SetRecordingState MainWindow RecordingState_Waiting,
            StartLog now True,
            SetRecordingState ControlWindow RecordingState_Recording,
            SetRecordingState CommentsWindow RecordingState_Recording]"
    using tr by simp
  show ?thesis
    unfolding es using fl start_ne_stop [of K now]
    by (simp add: statesShown_def sentMessages_def notifications_def)
qed

text \<open>
  From a controller that is not recording and has no watchdog pending, a request that
  is not acknowledged for 5000 ms or more ends in Idle with one stop message and one
  error notification.
\<close>

lemma handshake_timeout:
  fixes K :: constants and now :: qint64 and ms :: nat and s s' :: controller
  defines "s' \<equiv> elapse K ms (startDataRecording K now s)"
  assumes idle0: "\<not> isRecording s" and none0: "watchdogs s = []" and late: "5000 \<le> ms"
  shows "controlWindowState s' = RecordingState_Idle \<and>
         commentsWindowState s' = RecordingState_Idle \<and>
         mainWindowState s' = RecordingState_Idle \<and>
         \<not> isRecording s' \<and>
         watchdogs s' = [] \<and>
         statesShown ControlWindow (effectsSince s s') = [RecordingState_Waiting, RecordingState_Idle] \<and>
         sentMessages (effectsSince s s') = [startMessage K now, stopMessage K] \<and>
         count_list (sentMessages (effectsSince s s')) (stopMessage K) = 1 \<and>
         notifications (effectsSince s s') =
           [(NotificationType_Error, ''Cannot Record Data'',
             ''The rover has not responded to the request to start data recording'')]"
proof -
  let ?s1 = "startDataRecording K now s"
  let ?s2 = "?s1\<lparr>clock := clock ?s1 + ms, watchdogs := []\<rparr>"
  have idle: "\<not> isRecording ?s2"
    using idle0 by (simp add: fields_startDataRecording)
  have "s' = watchdog K ?s2"
    unfolding s'_def
  proof (rule elapse_timeout)
    show "\<not> isRecording ?s1" using idle0 by (simp add: fields_startDataRecording)
    show "watchdogs ?s1 = [clock s + 5000]" using none0 by (simp add: fields_startDataRecording)
    show "clock s + 5000 \<le> clock ?s1 + ms" using late by (simp add: fields_startDataRecording)
  qed
  then have tr: "trace s' = trace ?s2 @ [StopLog,
                SetRecordingState ControlWindow RecordingState_Idle,
                SetRecordingState CommentsWindow RecordingState_Idle,
                SetRecordingState MainWindow RecordingState_Idle,
                SendMessage (stopMessage K),
                Notify NotificationType_Error ''Cannot Record Data''
                  ''The rover has not responded to the request to start data recording'']"
    and fl: "controlWindowState s' = RecordingState_Idle"
      "commentsWindowState s' = RecordingState_Idle"
      "mainWindowState s' = RecordingState_Idle"
      "\<not> isRecording s'" "watchdogs s' = []"
    using idle by (simp_all add: trace_watchdog_idle fields_watchdog_idle)
  have "trace ?s2 = trace ?s1" by simp
  with tr have es: "effectsSince s s' =
     [SendMessage (startMessage K now),
                SetRecordingState ControlWindow RecordingState_Waiting,
                SetRecordingState CommentsWindow RecordingState_Waiting,
                SetRecordingState MainWindow RecordingState_Waiting,
                StopLog,
                SetRecordingState ControlWindow RecordingState_Idle,
                SetRecordingState CommentsWindow RecordingState_Idle,
                SetRecordingState MainWindow RecordingState_Idle,
                SendMessage (stopMessage K),
                Notify NotificationType_Error ''Cannot Record Data''
                  ''The rover has not responded to the request to start data recording'']"
    by (simp add: trace_startDataRecording)
  show ?thesis
    unfolding es using fl start_ne_stop [of K now]
    by (simp add: statesShown_def sentMessages_def notifications_def)
qed

text \<open>
  The watchdog stays armed after the acknowledgment: nothing cancels it. When its
  deadline is reached with the recorder still recording, it fires without any effect
  and is gone from the pending timers.
\<close>

lemma watchdog_after_acknowledgment:
  fixes K :: constants and now :: qint64 and before after :: nat and payload :: "byte list"
    and s s1 s2 :: controller
  defines "s1 \<equiv> elapse K before (startDataRecording K now s)"
  defines "s2 \<equiv> onMainChannelMessageReceived K
                    (put_qint32 (tagValue K SharedMessage_StartDataRecording) @ payload) True s1"
  assumes labels: "labelsDistinct K" and none0: "watchdogs s = []" and early: "before < 5000"
    and late: "5000 \<le> before + after"
  shows "watchdogs s2 = [clock s + 5000] \<and>
         isRecording s2 \<and>
         elapse K after s2 = s2\<lparr>clock := clock s2 + after, watchdogs := []\<rparr> \<and>
         effectsSince s2 (elapse K after s2) = [] \<and>
         controlWindowState (elapse K after s2) = RecordingState_Recording \<and>
         commentsWindowState (elapse K after s2) = RecordingState_Recording \<and>
         isRecording (elapse K after s2)"
proof -
  let ?s0 = "startDataRecording K now s"
  have "\<forall>d \<in> set (watchdogs ?s0). clock ?s0 + before < d"
    using none0 early by (simp add: fields_startDataRecording)
  then have s1: "s1 = ?s0\<lparr>clock := clock ?s0 + before\<rparr>"
    unfolding s1_def by (rule elapse_none_due)
  have s2: "s2 = onStartDataRecording K True s1"
    unfolding s2_def using labels by (rule onMain_start)
  have f2: "watchdogs s2 = [clock s + 5000]" "clock s2 = clock s + before" "isRecording s2"
    "controlWindowState s2 = RecordingState_Recording"
    "commentsWindowState s2 = RecordingState_Recording"
    using none0 by (simp_all add: s2 fields_onStart_ok s1 fields_startDataRecording)
  have "elapse K after s2 = s2\<lparr>clock := clock s2 + after,
          watchdogs := filter (\<lambda>d. \<not> d \<le> clock s2 + after) (watchdogs s2)\<rparr>"
    using f2(3) by (rule elapse_recording)
  moreover have "filter (\<lambda>d. \<not> d \<le> clock s2 + after) (watchdogs s2) = []"
    using late by (simp add: f2)
  ultimately have e: "elapse K after s2 = s2\<lparr>clock := clock s2 + after, watchdogs := []\<rparr>"
    by simp
  have "effectsSince s2 (elapse K after s2) = []"
    unfolding e by (simp add: effectsSince_def)
  moreover have "controlWindowState (elapse K after s2) = RecordingState_Recording"
    "commentsWindowState (elapse K after s2) = RecordingState_Recording"
    "isRecording (elapse K after s2)"
    unfolding e using f2 by simp_all
  ultimately show ?thesis
    using f2 e by blast
qed

subsection \<open>The handshake after an earlier recording\<close>

text \<open>
  Claim C1, evaluated on the code. The controller has been through one recording,
  requested at time 0, acknowledged at 1000 ms and stopped by the operator at
  2000 ms; the watchdog of that request is still pending, with its deadline at
  5000 ms. The operator requests recording again at 2000 ms and the rover's start
  message arrives 3500 ms later, within the 5000 ms of the new request, and the
  recorder starts. In between, at 5000 ms, the watchdog of the first request fires,
  finds the recorder not recording, stops the recording, sends a stop message and
  notifies that the rover has not responded. The control window shows Waiting, Idle,
  Recording: it never steps from Waiting to Recording. One stop message is sent and
  one error is notified. The main window ends in Idle; and in a run from a controller
  at rest, where no watchdog interferes, the main window ends in Waiting, since the
  handler shows Recording in the control and comments windows only.
\<close>

theorem acknowledged_after_earlier_recording:
  "effectsSince stoppedController
     (elapse exampleConstants 1500
        (onMainChannelMessageReceived exampleConstants (startMessage exampleConstants 5234) True
           (elapse exampleConstants 3500
              (toggleDataRecording exampleConstants 5234 stoppedController))))
     = [SendMessage (startMessage exampleConstants 5234),
        SetRecordingState ControlWindow RecordingState_Waiting,
        SetRecordingState CommentsWindow RecordingState_Waiting,
        SetRecordingState MainWindow RecordingState_Waiting,
        StopLog,
        SetRecordingState ControlWindow RecordingState_Idle,
        SetRecordingState CommentsWindow RecordingState_Idle,
        SetRecordingState MainWindow RecordingState_Idle,
        SendMessage (stopMessage exampleConstants),
        Notify NotificationType_Error ''Cannot Record Data''
          ''The rover has not responded to the request to start data recording'',
        StartLog 5234 True,
        SetRecordingState ControlWindow RecordingState_Recording,
        SetRecordingState CommentsWindow RecordingState_Recording] \<and>
   transitions RecordingState_Waiting RecordingState_Recording
     (controlWindowState stoppedController #
      statesShown ControlWindow
        (effectsSince stoppedController
           (elapse exampleConstants 1500
              (onMainChannelMessageReceived exampleConstants (startMessage exampleConstants 5234) True
                 (elapse exampleConstants 3500
                    (toggleDataRecording exampleConstants 5234 stoppedController))))))
     = 0 \<and>
   count_list
     (sentMessages
        (effectsSince stoppedController
           (elapse exampleConstants 1500
              (onMainChannelMessageReceived exampleConstants (startMessage exampleConstants 5234) True
                 (elapse exampleConstants 3500
                    (toggleDataRecording exampleConstants 5234 stoppedController))))))
     (stopMessage exampleConstants) = 1 \<and>
   mainWindowState
     (elapse exampleConstants 1500
        (onMainChannelMessageReceived exampleConstants (startMessage exampleConstants 5234) True
           (elapse exampleConstants 3500
              (toggleDataRecording exampleConstants 5234 stoppedController))))
     = RecordingState_Idle \<and>
   mainWindowState
     (elapse exampleConstants 3000
        (onMainChannelMessageReceived exampleConstants (startMessage exampleConstants 1234) True
           (elapse exampleConstants 2000
              (toggleDataRecording exampleConstants 1234 idleController))))
     = RecordingState_Waiting"
  by (intro conjI; code_simp)

text \<open>
  Claim C2, evaluated on the code. From the same controller, with the watchdog of the
  earlier, acknowledged request still pending, the operator requests recording at
  2000 ms and no acknowledgment arrives. At 5000 ms, 3000 ms after the request, the
  earlier watchdog fires: Idle, a stop message, an error notification. At 7000 ms the
  watchdog of the request itself fires and finds the recorder not recording: Idle
  again, a second stop message, a second error notification.
\<close>

theorem timeout_after_earlier_recording:
  "effectsSince stoppedController
     (elapse exampleConstants 3000 (toggleDataRecording exampleConstants 5234 stoppedController))
     = [SendMessage (startMessage exampleConstants 5234),
        SetRecordingState ControlWindow RecordingState_Waiting,
        SetRecordingState CommentsWindow RecordingState_Waiting,
        SetRecordingState MainWindow RecordingState_Waiting,
        StopLog,
        SetRecordingState ControlWindow RecordingState_Idle,
        SetRecordingState CommentsWindow RecordingState_Idle,
        SetRecordingState MainWindow RecordingState_Idle,
        SendMessage (stopMessage exampleConstants),
        Notify NotificationType_Error ''Cannot Record Data''
          ''The rover has not responded to the request to start data recording''] \<and>
   effectsSince
     (elapse exampleConstants 3000 (toggleDataRecording exampleConstants 5234 stoppedController))
     (elapse exampleConstants 2000
        (elapse exampleConstants 3000 (toggleDataRecording exampleConstants 5234 stoppedController)))
     = [StopLog,
        SetRecordingState ControlWindow RecordingState_Idle,
        SetRecordingState CommentsWindow RecordingState_Idle,
        SetRecordingState MainWindow RecordingState_Idle,
        SendMessage (stopMessage exampleConstants),
        Notify NotificationType_Error ''Cannot Record Data''
          ''The rover has not responded to the request to start data recording''] \<and>
   count_list
     (sentMessages
        (effectsSince stoppedController
           (elapse exampleConstants 2000
              (elapse exampleConstants 3000
                 (toggleDataRecording exampleConstants 5234 stoppedController)))))
     (stopMessage exampleConstants) = 2 \<and>
   length
     (notifications
        (effectsSince stoppedController
           (elapse exampleConstants 2000
              (elapse exampleConstants 3000
                 (toggleDataRecording exampleConstants 5234 stoppedController)))))
     = 2"
  by (intro conjI; code_simp)

text \<open>
  Claim C3, evaluated on the code. The operator requests recording at time 0, the
  rover acknowledges at 1000 ms and the recorder starts, and the operator stops the
  recording at 2000 ms. The watchdog armed at time 0 is still pending after the
  acknowledgment, with its deadline at 5000 ms: it has not been cancelled. When that
  time comes it finds the recorder not recording and takes the branch for a rover
  that did not respond: it stops the recording once more, sends a second stop
  message and notifies that the rover has not responded.
\<close>

theorem watchdog_fires_after_stop:
  "watchdogs
     (onMainChannelMessageReceived exampleConstants (startMessage exampleConstants 1234) True
        (elapse exampleConstants 1000 (startDataRecording exampleConstants 1234 idleController)))
     = [5000] \<and>
   controlWindowState
     (onMainChannelMessageReceived exampleConstants (startMessage exampleConstants 1234) True
        (elapse exampleConstants 1000 (startDataRecording exampleConstants 1234 idleController)))
     = RecordingState_Recording \<and>
   effectsSince
     (toggleDataRecording exampleConstants 5678
        (elapse exampleConstants 1000
           (onMainChannelMessageReceived exampleConstants (startMessage exampleConstants 1234) True
              (elapse exampleConstants 1000 (startDataRecording exampleConstants 1234 idleController)))))
     (elapse exampleConstants 3000
        (toggleDataRecording exampleConstants 5678
           (elapse exampleConstants 1000
              (onMainChannelMessageReceived exampleConstants (startMessage exampleConstants 1234) True
                 (elapse exampleConstants 1000 (startDataRecording exampleConstants 1234 idleController))))))
     = [StopLog,
        SetRecordingState ControlWindow RecordingState_Idle,
        SetRecordingState CommentsWindow RecordingState_Idle,
        SetRecordingState MainWindow RecordingState_Idle,
        SendMessage (stopMessage exampleConstants),
        Notify NotificationType_Error ''Cannot Record Data''
          ''The rover has not responded to the request to start data recording'']"
proof -
  let ?K = exampleConstants
  let ?s0 = "startDataRecording ?K 1234 idleController"
  let ?s1 = "elapse ?K 1000 ?s0"
  let ?s2 = "onMainChannelMessageReceived ?K (startMessage ?K 1234) True ?s1"
  let ?s3 = "elapse ?K 1000 ?s2"
  let ?s4 = "toggleDataRecording ?K 5678 ?s3"
  let ?s5 = "elapse ?K 3000 ?s4"
  have "\<forall>d \<in> set (watchdogs ?s0). clock ?s0 + 1000 < d"
    by (simp add: fields_startDataRecording idleController_def)
  then have s1: "?s1 = ?s0\<lparr>clock := clock ?s0 + 1000\<rparr>"
    by (rule elapse_none_due)
  have s2: "?s2 = onStartDataRecording ?K True ?s1"
    unfolding startMessage_def using labelsDistinct_example by (rule onMain_start)
  have w2: "watchdogs ?s2 = [5000]" and c2: "clock ?s2 = 1000"
    and r2: "controlWindowState ?s2 = RecordingState_Recording" and i2: "isRecording ?s2"
    unfolding s2 fields_onStart_ok unfolding s1
    by (simp_all add: fields_startDataRecording idleController_def)
  have "\<forall>d \<in> set (watchdogs ?s2). clock ?s2 + 1000 < d"
    by (simp add: w2 c2)
  then have s3: "?s3 = ?s2\<lparr>clock := clock ?s2 + 1000\<rparr>"
    by (rule elapse_none_due)
  have s4: "?s4 = stopDataRecording ?K ?s3"
    using i2 by (simp add: toggleDataRecording_def s3)
  have i4: "\<not> isRecording ?s4" and w4: "watchdogs ?s4 = [5000]" and c4: "clock ?s4 = 2000"
    unfolding s4 by (simp_all add: fields_stopDataRecording s3 w2 c2)
  have "?s5 = watchdog ?K (?s4\<lparr>clock := clock ?s4 + 3000, watchdogs := []\<rparr>)"
    using i4 w4 by (rule elapse_timeout) (simp add: c4)
  then have "trace ?s5 = trace ?s4 @ [StopLog,
        SetRecordingState ControlWindow RecordingState_Idle,
        SetRecordingState CommentsWindow RecordingState_Idle,
        SetRecordingState MainWindow RecordingState_Idle,
        SendMessage (stopMessage ?K),
        Notify NotificationType_Error ''Cannot Record Data''
          ''The rover has not responded to the request to start data recording'']"
    using i4 by (simp add: trace_watchdog_idle)
  then have "effectsSince ?s4 ?s5 = [StopLog,
        SetRecordingState ControlWindow RecordingState_Idle,
        SetRecordingState CommentsWindow RecordingState_Idle,
        SetRecordingState MainWindow RecordingState_Idle,
        SendMessage (stopMessage ?K),
        Notify NotificationType_Error ''Cannot Record Data''
          ''The rover has not responded to the request to start data recording'']"
    by simp
  with w2 r2 show ?thesis by blast
qed

text \<open>
  Claim C4, evaluated on the code. A start-recording message arrives and the recorder
  cannot be started. The handler stops the recording, which shows Idle in all three
  windows and sends a stop message, notifies the error and sends a second stop message;
  then it goes on to the two calls that follow the \<^verbatim>\<open>if\<close> and shows Recording in the
  control window and in the comments window. The session ends with these two windows
  in Recording, the main window in Idle, the recorder not recording, two stop messages
  sent and one error notified.
\<close>

theorem start_message_recorder_fails:
  fixes K :: constants and payload :: "byte list" and s s' :: controller
  defines "s' \<equiv> onMainChannelMessageReceived K
                    (put_qint32 (tagValue K SharedMessage_StartDataRecording) @ payload) False s"
  assumes labels: "labelsDistinct K"
  shows "controlWindowState s' = RecordingState_Recording \<and>
         commentsWindowState s' = RecordingState_Recording \<and>
         mainWindowState s' = RecordingState_Idle \<and>
         \<not> isRecording s' \<and>
         statesShown ControlWindow (effectsSince s s') = [RecordingState_Idle, RecordingState_Recording] \<and>
         sentMessages (effectsSince s s') = [stopMessage K, stopMessage K] \<and>
         notifications (effectsSince s s') =
           [(NotificationType_Error, ''Cannot Record Data'',
             ''An error occurred attempting to start data logging.'')]"
proof -
  have s': "s' = onStartDataRecording K False s"
    unfolding s'_def using labels by (rule onMain_start)
  show ?thesis
    by (simp add: s' fields_onStart_failed trace_onStart_failed statesShown_def sentMessages_def
        notifications_def)
qed

theorem start_message_recorder_fails_witness:
  "labelsDistinct exampleConstants \<and>
   controlWindowState (onMainChannelMessageReceived exampleConstants
      (put_qint32 (tagValue exampleConstants SharedMessage_StartDataRecording) @ put_qint64 0) False
      idleController) = RecordingState_Recording \<and>
   sentMessages (effectsSince idleController (onMainChannelMessageReceived exampleConstants
      (put_qint32 (tagValue exampleConstants SharedMessage_StartDataRecording) @ put_qint64 0) False
      idleController)) = [stopMessage exampleConstants, stopMessage exampleConstants]"
proof -
  have a: "labelsDistinct exampleConstants" by (rule labelsDistinct_example)
  show ?thesis
    using a start_message_recorder_fails [OF a, where payload = "put_qint64 0" and s = idleController]
    by blast
qed

text \<open>
  Claim C5. Whatever the state of the controller, recording or not,
  \<^verbatim>\<open>stopDataRecording\<close> leaves the recorder stopped and all three windows in Idle
  when it returns, arms no timer, and sends exactly one message to the rover, the
  stop-recording message.
\<close>

theorem stopDataRecording_unconditional:
  "controlWindowState (stopDataRecording K s) = RecordingState_Idle \<and>
   commentsWindowState (stopDataRecording K s) = RecordingState_Idle \<and>
   mainWindowState (stopDataRecording K s) = RecordingState_Idle \<and>
   \<not> isRecording (stopDataRecording K s) \<and>
   watchdogs (stopDataRecording K s) = watchdogs s \<and>
   effectsSince s (stopDataRecording K s) =
     [StopLog,
      SetRecordingState ControlWindow RecordingState_Idle,
      SetRecordingState CommentsWindow RecordingState_Idle,
      SetRecordingState MainWindow RecordingState_Idle,
      SendMessage (stopMessage K)] \<and>
   sentMessages (effectsSince s (stopDataRecording K s)) = [stopMessage K]"
proof -
  have "effectsSince s (stopDataRecording K s) =
     [StopLog,
      SetRecordingState ControlWindow RecordingState_Idle,
      SetRecordingState CommentsWindow RecordingState_Idle,
      SetRecordingState MainWindow RecordingState_Idle,
      SendMessage (stopMessage K)]"
    by (simp add: trace_stopDataRecording)
  then show ?thesis
    by (simp add: fields_stopDataRecording sentMessages_def)
qed



subsection \<open>The wire format\<close>

text \<open>
  Claim C8. Each of the controller's functions that send on the main channel sends one
  message, and the message is the four bytes of the 32-bit tag followed by the payload
  of that tag: the start timestamp for start-recording, the serialized format for
  activate-audio (sent only for a useable format), nothing for the others. The first
  four bytes of a message are the tag's, and reading a \<^verbatim>\<open>qint32\<close> from the message
  gives the tag back and leaves the payload.
\<close>

theorem tag_precedes_payload:
  "sentMessages (effectsSince s (sendStartRecordCommandToRover K s)) =
     [put_qint32 (tagValue K SharedMessage_StartDataRecording) @ put_qint64 (recordStartTime s)] \<and>
   sentMessages (effectsSince s (sendStopRecordCommandToRover K s)) =
     [put_qint32 (tagValue K SharedMessage_StopDataRecording)] \<and>
   sentMessages (effectsSince s (stopDataRecording K s)) =
     [put_qint32 (tagValue K SharedMessage_StopDataRecording)] \<and>
   sentMessages (effectsSince s (stopAllRoverCameras K s)) =
     [put_qint32 (tagValue K SharedMessage_StopAllCameraStreams)] \<and>
   sentMessages (effectsSince s (stopAudio K s)) =
     [put_qint32 (tagValue K SharedMessage_RequestDeactivateAudioStream)] \<and>
   sentMessages (effectsSince s (startAudioStream K format s)) =
     (if isUseable format
      then [put_qint32 (tagValue K SharedMessage_RequestActivateAudioStream) @ serialized format]
      else []) \<and>
   length (put_qint32 tag) = 4 \<and>
   take 4 (put_qint32 tag @ payload) = put_qint32 tag \<and>
   get_qint32 (put_qint32 tag @ payload) = (tag, payload)"
proof -
  have "sentMessages (effectsSince s (sendStartRecordCommandToRover K s)) =
     [put_qint32 (tagValue K SharedMessage_StartDataRecording) @ put_qint64 (recordStartTime s)]"
    by (simp add: sendStartRecordCommandToRover_def sendMessage_def emit_def effectsSince_def
        sentMessages_def)
  moreover have "sentMessages (effectsSince s (sendStopRecordCommandToRover K s)) =
     [put_qint32 (tagValue K SharedMessage_StopDataRecording)]"
    by (simp add: sendStopRecordCommandToRover_def sendMessage_def emit_def effectsSince_def
        sentMessages_def)
  moreover have "sentMessages (effectsSince s (stopDataRecording K s)) =
     [put_qint32 (tagValue K SharedMessage_StopDataRecording)]"
    by (simp add: trace_stopDataRecording sentMessages_def stopMessage_def)
  moreover have "sentMessages (effectsSince s (stopAllRoverCameras K s)) =
     [put_qint32 (tagValue K SharedMessage_StopAllCameraStreams)]"
    by (simp add: stopAllRoverCameras_def sendMessage_def emit_def effectsSince_def sentMessages_def)
  moreover have "sentMessages (effectsSince s (stopAudio K s)) =
     [put_qint32 (tagValue K SharedMessage_RequestDeactivateAudioStream)]"
    by (simp add: stopAudio_def sendMessage_def emit_def effectsSince_def sentMessages_def)
  moreover have "sentMessages (effectsSince s (startAudioStream K format s)) =
     (if isUseable format
      then [put_qint32 (tagValue K SharedMessage_RequestActivateAudioStream) @ serialized format]
      else [])"
    by (simp add: startAudioStream_def sendMessage_def emit_def effectsSince_def sentMessages_def)
  moreover have "length (put_qint32 tag) = 4"
    by (simp add: put_qint32_def)
  moreover have "take 4 (put_qint32 tag @ payload) = put_qint32 tag"
    by (simp add: put_qint32_def)
  moreover have "get_qint32 (put_qint32 tag @ payload) = (tag, payload)"
    by (rule get_put_qint32)
  ultimately show ?thesis by blast
qed

section \<open>Properties of the video streamer\<close>

lemma performedSince_append [simp]:
  "effects s' = effects s @ es \<Longrightarrow> performedSince s s' = es"
  by (simp add: performedSince_def)

lemma stopPrivate_no_pipeline: "pipeline s = None \<Longrightarrow> stopPrivate sendReady s = s"
  by (simp add: stopPrivate_def)

lemma effects_stopPrivate_pipeline:
  "pipeline s = Some p \<Longrightarrow>
   effects (stopPrivate sendReady s) =
     effects s @ [ParentCall (onChildLogInfo (pid s) LogTag ''Freeing pipeline''),
                  BusDisconnect, PipelineSetState StateNull, PipelineClear]
               @ (if sendReady then [ParentCall (onChildReady (pid s))] else [])"
  by (simp add: stopPrivate_def call_def perform_def Let_def)

lemma effects_stopPrivate_cases:
  "effects (stopPrivate sendReady s) =
     effects s @
     (case pipeline s of
        None \<Rightarrow> []
      | Some p \<Rightarrow>
          [ParentCall (onChildLogInfo (pid s) LogTag ''Freeing pipeline''),
           BusDisconnect, PipelineSetState StateNull, PipelineClear]
          @ (if sendReady then [ParentCall (onChildReady (pid s))] else []))"
  by (simp add: stopPrivate_def call_def perform_def Let_def split: option.split)

lemma fields_stopPrivate:
  "pipeline (stopPrivate sendReady s) = None"
  "pid (stopPrivate sendReady s) = pid s"
  by (simp_all add: stopPrivate_def call_def perform_def Let_def split: option.split)

lemma effects_stream:
  "effects (stream G device address port profile vaapi s) =
     effects (stopPrivate False s) @
     [PipelineCreate, BusAddSignalWatch, BusConnect,
      ParentCall (onChildLogInfo (pid s) LogTag
        (''Starting GStreamer with command '' @ createRtpV4L2EncodeString G device address port profile vaapi)),
      PipelineAdd (createRtpV4L2EncodeString G device address port profile vaapi),
      PipelineSetState StatePlaying,
      ParentCall (onChildStreaming (pid s))]"
  by (simp add: stream_def createPipeline_def call_def perform_def fields_stopPrivate Let_def)

lemma effects_streamStereo:
  "effects (streamStereo G leftDevice rightDevice address port profile vaapi s) =
     effects (stopPrivate False s) @
     [PipelineCreate, BusAddSignalWatch, BusConnect,
      ParentCall (onChildLogInfo (pid s) LogTag
        (''Starting GStreamer with command '' @
         createRtpStereoV4L2EncodeString G leftDevice rightDevice address port profile vaapi)),
      PipelineAdd (createRtpStereoV4L2EncodeString G leftDevice rightDevice address port profile vaapi),
      PipelineSetState StatePlaying,
      ParentCall (onChildStreaming (pid s))]"
  by (simp add: streamStereo_def createPipeline_def call_def perform_def fields_stopPrivate Let_def)

lemma fields_stream:
  "pipeline (stream G device address port profile vaapi s) =
     Some \<lparr>gstState = StatePlaying,
           bins = [createRtpV4L2EncodeString G device address port profile vaapi],
           busConnected = True\<rparr>"
  "pid (stream G device address port profile vaapi s) = pid s"
  by (simp_all add: stream_def createPipeline_def call_def perform_def fields_stopPrivate Let_def)

lemma fields_streamStereo:
  "pipeline (streamStereo G leftDevice rightDevice address port profile vaapi s) =
     Some \<lparr>gstState = StatePlaying,
           bins = [createRtpStereoV4L2EncodeString G leftDevice rightDevice address port profile vaapi],
           busConnected = True\<rparr>"
  "pid (streamStereo G leftDevice rightDevice address port profile vaapi s) = pid s"
  by (simp_all add: streamStereo_def createPipeline_def call_def perform_def fields_stopPrivate Let_def)

lemma pipeline_playingStreamer: "pipeline playingStreamer \<noteq> None"
  by (simp add: playingStreamer_def fields_stream)

lemma pipeline_freshStreamer: "pipeline freshStreamer = None"
  by (simp add: freshStreamer_def)

text \<open>
  Claim C6. \<^verbatim>\<open>onBusMessage\<close> is connected to the bus of the current pipeline only, so
  a pipeline is there when it runs. On an error or an end-of-stream message it makes
  exactly one \<^verbatim>\<open>onChildError\<close> call, with the process id and the detail message, and
  tears the pipeline down once: the pipeline is set to the null state once and
  released once, and the pointer is null afterwards.
\<close>

theorem bus_error_reported_once:
  fixes message :: busMessage and s s' :: streamer
  defines "s' \<equiv> onBusMessage message s"
  assumes active: "pipeline s \<noteq> None" and failure: "message \<noteq> MessageOther"
  shows "errorReports (performedSince s s') = [(pid s, detail message)] \<and>
         performedSince s s' =
           [ParentCall (onChildError (pid s) (detail message)),
            ParentCall (onChildLogInfo (pid s) LogTag ''Freeing pipeline''),
            BusDisconnect, PipelineSetState StateNull, PipelineClear,
            ParentCall (onChildReady (pid s))] \<and>
         count_list (performedSince s s') (PipelineSetState StateNull) = 1 \<and>
         count_list (performedSince s s') PipelineClear = 1 \<and>
         pipeline s' = None"
proof -
  from active obtain p where p: "pipeline s = Some p" by auto
  have s': "s' = stopPrivate True (call (onChildError (pid s) (detail message)) s)"
    using failure by (cases message) (simp_all add: s'_def onBusMessage_def)
  have "pipeline (call (onChildError (pid s) (detail message)) s) = Some p"
    by (simp add: call_def perform_def p)
  then have "effects s' = effects (call (onChildError (pid s) (detail message)) s) @
     [ParentCall (onChildLogInfo (pid (call (onChildError (pid s) (detail message)) s)) LogTag ''Freeing pipeline''),
      BusDisconnect, PipelineSetState StateNull, PipelineClear] @
     (if True then [ParentCall (onChildReady (pid (call (onChildError (pid s) (detail message)) s)))] else [])"
    unfolding s' by (rule effects_stopPrivate_pipeline)
  then have "effects s' = effects s @
           [ParentCall (onChildError (pid s) (detail message)),
            ParentCall (onChildLogInfo (pid s) LogTag ''Freeing pipeline''),
            BusDisconnect, PipelineSetState StateNull, PipelineClear,
            ParentCall (onChildReady (pid s))]"
    by (simp add: call_def perform_def)
  then have es: "performedSince s s' =
           [ParentCall (onChildError (pid s) (detail message)),
            ParentCall (onChildLogInfo (pid s) LogTag ''Freeing pipeline''),
            BusDisconnect, PipelineSetState StateNull, PipelineClear,
            ParentCall (onChildReady (pid s))]"
    by simp
  have "pipeline s' = None"
    unfolding s' by (rule fields_stopPrivate)
  then show ?thesis
    unfolding es by (simp add: errorReports_def parentCalls_def)
qed

theorem bus_error_reported_once_witness:
  "pipeline playingStreamer \<noteq> None \<and> MessageError ''device disconnected'' \<noteq> MessageOther \<and>
   errorReports (performedSince playingStreamer
       (onBusMessage (MessageError ''device disconnected'') playingStreamer))
     = [(pid playingStreamer, ''device disconnected'')] \<and>
   count_list (performedSince playingStreamer
       (onBusMessage (MessageError ''device disconnected'') playingStreamer)) PipelineClear = 1"
proof -
  have a: "pipeline playingStreamer \<noteq> None" by (rule pipeline_playingStreamer)
  have b: "MessageError ''device disconnected'' \<noteq> MessageOther" by simp
  show ?thesis
    using a b bus_error_reported_once [OF a b, unfolded detail.simps] by blast
qed

text \<open>
  Claim C7. A second \<^verbatim>\<open>stop\<close> right after a first changes nothing: two calls do
  what one call does, which is one teardown when a pipeline is active and none
  otherwise. Without an active pipeline \<^verbatim>\<open>stop\<close> is a no-op: the state is
  unchanged, so the pipeline is not touched and the parent is not called.
\<close>

theorem stop_idempotent:
  "stop (stop s) = stop s \<and>
   performedSince s (stop (stop s)) = performedSince s (stop s) \<and>
   count_list (performedSince s (stop (stop s))) (PipelineSetState StateNull) =
     (if pipeline s = None then 0 else 1) \<and>
   count_list (performedSince s (stop (stop s))) PipelineClear =
     (if pipeline s = None then 0 else 1) \<and>
   (pipeline s = None \<longrightarrow> stop s = s \<and> performedSince s (stop s) = [])"
proof -
  have 1: "stop (stop s) = stop s"
    by (simp add: stop_def stopPrivate_no_pipeline fields_stopPrivate)
  have 2: "pipeline s = None \<longrightarrow> stop s = s \<and> performedSince s (stop s) = []"
    by (simp add: stop_def stopPrivate_no_pipeline performedSince_def)
  have "effects (stop s) = effects s @
     (case pipeline s of
        None \<Rightarrow> []
      | Some p \<Rightarrow>
          [ParentCall (onChildLogInfo (pid s) LogTag ''Freeing pipeline''),
           BusDisconnect, PipelineSetState StateNull, PipelineClear,
           ParentCall (onChildReady (pid s))])"
    by (simp add: stop_def effects_stopPrivate_cases split: option.split)
  then have 3: "performedSince s (stop s) =
     (case pipeline s of
        None \<Rightarrow> []
      | Some p \<Rightarrow>
          [ParentCall (onChildLogInfo (pid s) LogTag ''Freeing pipeline''),
           BusDisconnect, PipelineSetState StateNull, PipelineClear,
           ParentCall (onChildReady (pid s))])"
    by simp
  have 4: "count_list (performedSince s (stop s)) (PipelineSetState StateNull) =
     (if pipeline s = None then 0 else 1)"
    "count_list (performedSince s (stop s)) PipelineClear = (if pipeline s = None then 0 else 1)"
    unfolding 3 by (simp_all split: option.split)
  show ?thesis
    unfolding 1 using 1 2 4 by simp
qed

theorem stop_idempotent_witness:
  "pipeline freshStreamer = None \<and> stop freshStreamer = freshStreamer \<and>
   stop (stop playingStreamer) = stop playingStreamer \<and>
   count_list (performedSince playingStreamer (stop (stop playingStreamer))) PipelineClear = 1"
proof -
  have a: "pipeline freshStreamer = None" by (rule pipeline_freshStreamer)
  have b: "pipeline playingStreamer \<noteq> None" by (rule pipeline_playingStreamer)
  show ?thesis
    using a stop_idempotent [of freshStreamer] stop_idempotent [of playingStreamer]
    by (auto simp add: b)
qed

text \<open>
  Claim C9. Every call of \<^verbatim>\<open>stream\<close> and of \<^verbatim>\<open>streamStereo\<close> makes exactly one
  \<^verbatim>\<open>onChildStreaming\<close> call and no \<^verbatim>\<open>onChildError\<close> call; the report is the last thing
  the call does and comes right after the pipeline is set to playing, with nothing read
  back from the pipeline in between. A failure of the pipeline is reported by a later
  bus message, through \<^verbatim>\<open>onBusMessage\<close>.
\<close>

theorem streaming_reported_unconditionally:
  "streamingReports (performedSince s (stream G device address port profile vaapi s)) = [pid s] \<and>
   streamingReports
     (performedSince s (streamStereo G leftDevice rightDevice address port profile vaapi s)) = [pid s] \<and>
   errorReports (performedSince s (stream G device address port profile vaapi s)) = [] \<and>
   errorReports
     (performedSince s (streamStereo G leftDevice rightDevice address port profile vaapi s)) = [] \<and>
   drop (length (effects (stream G device address port profile vaapi s)) - 2)
        (effects (stream G device address port profile vaapi s)) =
     [PipelineSetState StatePlaying, ParentCall (onChildStreaming (pid s))] \<and>
   drop (length (effects (streamStereo G leftDevice rightDevice address port profile vaapi s)) - 2)
        (effects (streamStereo G leftDevice rightDevice address port profile vaapi s)) =
     [PipelineSetState StatePlaying, ParentCall (onChildStreaming (pid s))] \<and>
   errorReports
     (performedSince (stream G device address port profile vaapi s)
        (onBusMessage (MessageError errorMessage) (stream G device address port profile vaapi s)))
     = [(pid s, errorMessage)]"
proof -
  have st: "performedSince s (stopPrivate False s) =
     (case pipeline s of
        None \<Rightarrow> []
      | Some p \<Rightarrow>
          [ParentCall (onChildLogInfo (pid s) LogTag ''Freeing pipeline''),
           BusDisconnect, PipelineSetState StateNull, PipelineClear])"
    by (simp add: effects_stopPrivate_cases split: option.split)
  have 1: "streamingReports (performedSince s (stream G device address port profile vaapi s)) = [pid s]"
    "errorReports (performedSince s (stream G device address port profile vaapi s)) = []"
    by (simp_all add: performedSince_def effects_stream effects_stopPrivate_cases
        streamingReports_def errorReports_def parentCalls_def split: option.split)
  have 2: "streamingReports
     (performedSince s (streamStereo G leftDevice rightDevice address port profile vaapi s)) = [pid s]"
    "errorReports
     (performedSince s (streamStereo G leftDevice rightDevice address port profile vaapi s)) = []"
    by (simp_all add: performedSince_def effects_streamStereo effects_stopPrivate_cases
        streamingReports_def errorReports_def parentCalls_def split: option.split)
  have 3: "drop (length (effects (stream G device address port profile vaapi s)) - 2)
        (effects (stream G device address port profile vaapi s)) =
     [PipelineSetState StatePlaying, ParentCall (onChildStreaming (pid s))]"
    by (simp add: effects_stream)
  have 4: "drop (length (effects (streamStereo G leftDevice rightDevice address port profile vaapi s)) - 2)
        (effects (streamStereo G leftDevice rightDevice address port profile vaapi s)) =
     [PipelineSetState StatePlaying, ParentCall (onChildStreaming (pid s))]"
    by (simp add: effects_streamStereo)
  have 5: "errorReports
     (performedSince (stream G device address port profile vaapi s)
        (onBusMessage (MessageError errorMessage) (stream G device address port profile vaapi s)))
     = [(pid s, errorMessage)]"
    by (simp add: onBusMessage_def performedSince_def effects_stopPrivate_cases fields_stream
        call_def perform_def errorReports_def parentCalls_def)
  show ?thesis
    using 1 2 3 4 5 by blast
qed

end
